theory Spec2Isabelle
  imports Complex_Main
begin

section \<open>JavaScript values\<close>

text \<open>
  The analytics server is a JavaScript program. Its numbers are modelled by \<open>jsnum\<close>:
  the three non-finite values the code tests for (\<open>isNaN\<close>, \<open>isFinite\<close>) are explicit
  and a finite number carries its exact rational value. Rounding to binary64 is not
  modelled; a negative zero is the rational zero.

  A string is a list of characters, each standing for one code unit; every string
  operation the server uses (\<open>slice\<close>, \<open>replace\<close> of a character class, comparison,
  property names) works code unit by code unit.
\<close>

datatype jsnum = NaN | PosInf | NegInf | Fin rat

datatype jsval =
    JUndefined
  | JNull
  | JBool bool
  | JNum jsnum
  | JStr string
  | JArr "jsval list"
  | JObj "(string \<times> jsval) list"

section \<open>Primitive operations of the language\<close>

text \<open>Truthiness, as \<open>!x\<close> and \<open>x || y\<close> test it.\<close>

fun truthy :: "jsval \<Rightarrow> bool" where
  "truthy JUndefined = False"
| "truthy JNull = False"
| "truthy (JBool b) = b"
| "truthy (JNum n) = (n \<noteq> NaN \<and> n \<noteq> Fin 0)"
| "truthy (JStr s) = (s \<noteq> [])"
| "truthy (JArr xs) = True"
| "truthy (JObj kvs) = True"

text \<open>\<open>typeof x === 'object'\<close> holds of objects, arrays and \<open>null\<close>.\<close>

fun typeof_object :: "jsval \<Rightarrow> bool" where
  "typeof_object JNull = True"
| "typeof_object (JArr xs) = True"
| "typeof_object (JObj kvs) = True"
| "typeof_object v = False"

fun typeof_string :: "jsval \<Rightarrow> bool" where
  "typeof_string (JStr s) = True"
| "typeof_string v = False"

text \<open>
  Decimal numerals of natural numbers: the names of an array's index properties.
\<close>

definition digit_char :: "nat \<Rightarrow> char" where
  "digit_char d = ''0123456789'' ! d"

function decimal :: "nat \<Rightarrow> string" where
  "decimal n = (if n < 10 then [digit_char n] else decimal (n div 10) @ [digit_char (n mod 10)])"
  by pat_completeness auto
termination
  by (relation "measure id") auto

declare decimal.simps [simp del]

text \<open>
  \<open>Object.keys(x)\<close>: the own enumerable property names. A parsed JSON object is an
  association list of its members; an array has its indices.
\<close>

fun keys :: "jsval \<Rightarrow> string list" where
  "keys (JObj kvs) = map fst kvs"
| "keys (JArr xs) = map decimal [0..<length xs]"
| "keys v = []"

text \<open>
  \<open>x.name\<close>, for the property names the server reads (\<open>eventType\<close>, \<open>data\<close>,
  \<open>sessionId\<close>, \<open>bet\<close>, ...): none of them is a property of \<open>Object.prototype\<close>,
  \<open>Array.prototype\<close> or a primitive's wrapper, so the read finds an own member of an
  object and is \<open>undefined\<close> everywhere else. Reading a property of \<open>undefined\<close> or
  \<open>null\<close> throws; the callers test for that before they use \<open>get\<close>.
\<close>

fun get :: "jsval \<Rightarrow> string \<Rightarrow> jsval" where
  "get (JObj kvs) name = (case map_of kvs name of Some v \<Rightarrow> v | None \<Rightarrow> JUndefined)"
| "get v name = JUndefined"

subsection \<open>Numbers\<close>

definition isNaN :: "jsnum \<Rightarrow> bool" where
  "isNaN n \<longleftrightarrow> n = NaN"

fun isFinite :: "jsnum \<Rightarrow> bool" where
  "isFinite (Fin r) = True"
| "isFinite n = False"

text \<open>\<open>a < b\<close> on numbers: false as soon as one side is \<open>NaN\<close>.\<close>

fun jless :: "jsnum \<Rightarrow> jsnum \<Rightarrow> bool" where
  "jless NaN b = False"
| "jless a NaN = False"
| "jless PosInf b = False"
| "jless a NegInf = False"
| "jless NegInf b = True"
| "jless a PosInf = True"
| "jless (Fin a) (Fin b) = (a < b)"

fun jneg :: "jsnum \<Rightarrow> jsnum" where
  "jneg NaN = NaN"
| "jneg PosInf = NegInf"
| "jneg NegInf = PosInf"
| "jneg (Fin a) = Fin (- a)"

fun jadd :: "jsnum \<Rightarrow> jsnum \<Rightarrow> jsnum" where
  "jadd NaN b = NaN"
| "jadd a NaN = NaN"
| "jadd PosInf NegInf = NaN"
| "jadd NegInf PosInf = NaN"
| "jadd PosInf b = PosInf"
| "jadd a PosInf = PosInf"
| "jadd NegInf b = NegInf"
| "jadd a NegInf = NegInf"
| "jadd (Fin a) (Fin b) = Fin (a + b)"

definition jsub :: "jsnum \<Rightarrow> jsnum \<Rightarrow> jsnum" where
  "jsub a b = jadd a (jneg b)"

text \<open>The sign of a number that is not \<open>NaN\<close>: \<open>-1\<close>, \<open>0\<close> or \<open>1\<close>.\<close>

fun jsign :: "jsnum \<Rightarrow> int" where
  "jsign (Fin a) = (if a < 0 then -1 else if a = 0 then 0 else 1)"
| "jsign NegInf = -1"
| "jsign n = 1"

definition signed_inf :: "int \<Rightarrow> jsnum" where
  "signed_inf s = (if s < 0 then NegInf else PosInf)"

fun jmul :: "jsnum \<Rightarrow> jsnum \<Rightarrow> jsnum" where
  "jmul NaN b = NaN"
| "jmul a NaN = NaN"
| "jmul (Fin a) (Fin b) = Fin (a * b)"
| "jmul a b = (if jsign a * jsign b = 0 then NaN else signed_inf (jsign a * jsign b))"

text \<open>
  Division. A zero divisor is the positive zero (the model has no negative zero), so a
  finite non-zero dividend over zero is the infinity of the dividend's sign.
\<close>

fun jdiv :: "jsnum \<Rightarrow> jsnum \<Rightarrow> jsnum" where
  "jdiv NaN b = NaN"
| "jdiv a NaN = NaN"
| "jdiv (Fin a) (Fin b) =
     (if b = 0 then (if a = 0 then NaN else signed_inf (jsign (Fin a))) else Fin (a / b))"
| "jdiv (Fin a) b = Fin 0"
| "jdiv a (Fin b) = signed_inf (jsign a * (if b < 0 then -1 else 1))"
| "jdiv a b = NaN"




text \<open>
  The number a decimal or hexadecimal literal denotes. Rounding to the nearest binary64
  value is not modelled, overflow is: a magnitude of at least \<open>2^1024 - 2^970\<close> rounds
  to an infinity.
\<close>

definition to_number :: "rat \<Rightarrow> jsnum" where
  "to_number x =
     (if 2 ^ 1024 - 2 ^ 970 \<le> \<bar>x\<bar> then (if x < 0 then NegInf else PosInf) else Fin x)"

subsection \<open>Parsing numbers out of strings\<close>

definition is_whitespace :: "char \<Rightarrow> bool" where
  "is_whitespace c \<longleftrightarrow> (of_char c :: nat) \<in> {9, 10, 11, 12, 13, 32, 160}"

definition is_digit :: "char \<Rightarrow> bool" where
  "is_digit c \<longleftrightarrow> 48 \<le> (of_char c :: nat) \<and> (of_char c :: nat) \<le> 57"


definition digit_value :: "char \<Rightarrow> nat" where
  "digit_value c =
     (let n = (of_char c :: nat)
      in if n \<le> 57 then n - 48 else if n \<le> 70 then n - 55 else n - 87)"

definition digits_value :: "nat \<Rightarrow> string \<Rightarrow> nat" where
  "digits_value radix ds = foldl (\<lambda>a c. radix * a + digit_value c) 0 ds"

text \<open>An optional sign: whether it is a minus, and the rest.\<close>

fun parse_sign :: "string \<Rightarrow> bool \<times> string" where
  "parse_sign [] = (False, [])"
| "parse_sign (c # cs) =
     (if c = CHR ''-'' then (True, cs) else if c = CHR ''+'' then (False, cs) else (False, c # cs))"

text \<open>
  An exponent part \<open>e\<close>, \<open>e+\<close> or \<open>e-\<close> followed by digits; anything else is no
  exponent, and the literal ends before it.
\<close>

fun parse_exponent :: "string \<Rightarrow> int" where
  "parse_exponent [] = 0"
| "parse_exponent (c # cs) =
     (if c = CHR ''e'' \<or> c = CHR ''E'' then
        (let (neg, r) = parse_sign cs; ds = takeWhile is_digit r
         in if ds = [] then 0
            else if neg then - int (digits_value 10 ds) else int (digits_value 10 ds))
      else 0)"

definition scale10 :: "rat \<Rightarrow> int \<Rightarrow> rat" where
  "scale10 m e = (if 0 \<le> e then m * 10 ^ nat e else m / 10 ^ nat (- e))"

text \<open>
  \<open>parseFloat\<close> of a string: leading white space is skipped, then the longest prefix
  that is a decimal literal (\<open>Infinity\<close>, or digits with an optional fraction and
  exponent, each optionally signed) gives the value; no such prefix gives \<open>NaN\<close>.
\<close>

definition parseFloat_string :: "string \<Rightarrow> jsnum" where
  "parseFloat_string s =
     (let (neg, u) = parse_sign (dropWhile is_whitespace s)
      in if take 8 u = ''Infinity'' then (if neg then NegInf else PosInf)
         else
           let ip = takeWhile is_digit u;
               r1 = dropWhile is_digit u;
               dot = (r1 \<noteq> [] \<and> hd r1 = CHR ''.'');
               fp = (if dot then takeWhile is_digit (tl r1) else []);
               r2 = (if dot then dropWhile is_digit (tl r1) else r1)
           in if ip = [] \<and> fp = [] then NaN
              else
                let m = of_nat (digits_value 10 (ip @ fp)) / 10 ^ length fp;
                    v = scale10 m (parse_exponent r2)
                in to_number (if neg then - v else v))"

text \<open>
  Converting a value to a string (\<open>String(x)\<close>, and the first step of
  \<open>parseFloat(x)\<close>) calls the \<open>toString\<close> method of an object. A parsed JSON object
  that has a member of its own named \<open>toString\<close> shadows the inherited method with a
  value that cannot be called, \<open>valueOf\<close> returns the object itself, and the conversion
  throws a \<open>TypeError\<close>; so does the conversion of an array, which converts each of its
  elements, when one of them throws.
\<close>

datatype exception = TypeError

fun not_convertible :: "jsval \<Rightarrow> bool" where
  "not_convertible (JObj kvs) = (''toString'' \<in> set (map fst kvs))"
| "not_convertible (JArr xs) = list_ex not_convertible xs"
| "not_convertible v = False"

text \<open>
  \<open>parseFloat(x)\<close> of a value that converts to a string. A number prints to a string
  that parses back to itself. An array prints its elements separated by commas (\<open>null\<close>
  and \<open>undefined\<close> as the empty string), and no literal holds a comma, so the parsed
  prefix lies within the first element. \<open>true\<close>, \<open>null\<close>, \<open>undefined\<close> and
  \<open>[object Object]\<close> start no literal.
\<close>

fun parseFloat_printed :: "jsval \<Rightarrow> jsnum" where
  "parseFloat_printed (JNum n) = n"
| "parseFloat_printed (JStr s) = parseFloat_string s"
| "parseFloat_printed (JArr (x # xs)) = parseFloat_printed x"
| "parseFloat_printed v = NaN"

definition parseFloat :: "jsval \<Rightarrow> exception + jsnum" where
  "parseFloat v = (if not_convertible v then Inl TypeError else Inr (parseFloat_printed v))"


subsection \<open>Slices\<close>

text \<open>
  \<open>xs.slice(start, end)\<close>: each bound is truncated to an integer, a negative bound
  counts from the end, and both are clamped to \<open>0 .. length\<close>; an absent \<open>end\<close> is the
  length.
\<close>

definition to_integer :: "rat \<Rightarrow> int" where
  "to_integer r = (if 0 \<le> r then \<lfloor>r\<rfloor> else \<lceil>r\<rceil>)"

fun relative_index :: "nat \<Rightarrow> jsnum \<Rightarrow> nat" where
  "relative_index len NaN = 0"
| "relative_index len PosInf = len"
| "relative_index len NegInf = 0"
| "relative_index len (Fin r) =
     (let i = to_integer r
      in if i < 0 then nat (max (int len + i) 0) else min (nat i) len)"

definition slice :: "'a list \<Rightarrow> jsnum \<Rightarrow> jsnum option \<Rightarrow> 'a list" where
  "slice xs start end' =
     (let len = length xs;
          k = relative_index len start;
          final = (case end' of None \<Rightarrow> len | Some e \<Rightarrow> relative_index len e)
      in take (final - k) (drop k xs))"

section \<open>Sanitizer and validators\<close>

text \<open>
  \<^verbatim>\<open>
  function sanitize(str, maxLength = 500) {
      if (typeof str !== 'string') return '';
      return str
          .slice(0, maxLength)
          .replace(/[<>'"&\\]/g, '')
          .replace(/[\x00-\x1F\x7F]/g, '');
  }
  \<close>
  Every caller passes a literal natural number as \<open>maxLength\<close> (50, 300, 20, 200).
\<close>

definition html_special :: "char \<Rightarrow> bool" where
  "html_special c \<longleftrightarrow>
     c \<in> set [CHR ''<'', CHR ''>'', CHR 0x27, CHR 0x22, CHR ''&'', CHR 0x5C]"

definition control_char :: "char \<Rightarrow> bool" where
  "control_char c \<longleftrightarrow> (of_char c :: nat) \<le> 0x1F \<or> (of_char c :: nat) = 0x7F"

definition sanitize :: "jsval \<Rightarrow> nat \<Rightarrow> string" where
  "sanitize str maxLength =
     (case str of
        JStr s \<Rightarrow>
          filter (\<lambda>c. \<not> control_char c)
            (filter (\<lambda>c. \<not> html_special c)
               (slice s (Fin 0) (Some (Fin (of_nat maxLength)))))
      | _ \<Rightarrow> [])"

text \<open>
  \<^verbatim>\<open>
  function validateNumber(val, min = 0, max = 1000000) {
      const num = parseFloat(val);
      if (isNaN(num) || !isFinite(num) || num < min || num > max) return null;
      return num;
  }
  \<close>
  The result is \<open>null\<close> (\<open>None\<close>) or the number, unless \<open>parseFloat\<close> throws.
\<close>

definition validateNumber :: "jsval \<Rightarrow> rat \<Rightarrow> rat \<Rightarrow> exception + jsnum option" where
  "validateNumber val min' max' =
     (case parseFloat val of
        Inl thrown \<Rightarrow> Inl thrown
      | Inr num \<Rightarrow>
          Inr (if isNaN num \<or> \<not> isFinite num \<or> jless num (Fin min') \<or> jless (Fin max') num
               then None else Some num))"

text \<open>
  \<^verbatim>\<open>
  const EVENT_SCHEMAS = {
      visit: ['sessionId', 'userAgent', 'screenSize', 'referrer'],
      spin: ['sessionId', 'bet', 'win', 'symbols'],
      freeSpins: ['sessionId', 'mode', 'totalWin', 'spinsCount'],
      bigWin: ['sessionId', 'tier', 'amount']
  };
  \<close>
  \<open>EVENT_SCHEMAS[eventType]\<close> reads a property of an object literal: one of the four
  own members, a member inherited from \<open>Object.prototype\<close> (a function or an object,
  truthy, and not an array), or \<open>undefined\<close>.
\<close>

datatype schema = Fields "string list" | Inherited

definition Object_prototype_names :: "string list" where
  "Object_prototype_names =
     [''constructor'', ''hasOwnProperty'', ''isPrototypeOf'', ''propertyIsEnumerable'',
      ''toLocaleString'', ''toString'', ''valueOf'', ''__proto__'',
      ''__defineGetter__'', ''__defineSetter__'', ''__lookupGetter__'',
      ''__lookupSetter__'']"

definition EVENT_SCHEMAS :: "string \<Rightarrow> schema option" where
  "EVENT_SCHEMAS eventType =
     (if eventType = ''visit'' then
        Some (Fields [''sessionId'', ''userAgent'', ''screenSize'', ''referrer''])
      else if eventType = ''spin'' then
        Some (Fields [''sessionId'', ''bet'', ''win'', ''symbols''])
      else if eventType = ''freeSpins'' then
        Some (Fields [''sessionId'', ''mode'', ''totalWin'', ''spinsCount''])
      else if eventType = ''bigWin'' then
        Some (Fields [''sessionId'', ''tier'', ''amount''])
      else if eventType \<in> set Object_prototype_names then Some Inherited
      else None)"

text \<open>
  \<^verbatim>\<open>
  function validateKeys(obj, allowedKeys) {
      if (!obj || typeof obj !== 'object') return false;
      const keys = Object.keys(obj);
      return keys.every(key => allowedKeys.includes(key));
  }
  \<close>
  With an inherited member for \<open>allowedKeys\<close>, \<open>allowedKeys.includes\<close> is
  \<open>undefined\<close>: calling it throws a \<open>TypeError\<close>, which \<open>every\<close> does for the first
  key, if there is one. \<open>None\<close> is that exception.
\<close>

definition validateKeys :: "jsval \<Rightarrow> schema \<Rightarrow> bool option" where
  "validateKeys obj allowedKeys =
     (if \<not> truthy obj \<or> \<not> typeof_object obj then Some False
      else case allowedKeys of
             Fields allowed \<Rightarrow> Some (list_all (\<lambda>key. key \<in> set allowed) (keys obj))
           | Inherited \<Rightarrow> (if keys obj = [] then Some True else None))"

section \<open>The event store and its persistence\<close>

text \<open>
  The four kinds of record, as the object literals the handler pushes. Every record
  starts with the server's time stamp and the sanitized session identifier.
\<close>

record event =
  timestamp :: string
  sessionId :: string

record visit = event +
  userAgent :: string
  screenSize :: string
  referrer :: string

record spin = event +
  bet :: jsnum
  win :: jsnum
  symbols :: "string list"

record freeSpin = event +
  mode :: string
  totalWin :: jsnum
  spinsCount :: jsnum

record bigWin = event +
  tier :: string
  amount :: jsnum

record analytics =
  visits :: "visit list"
  spins :: "spin list"
  freeSpins :: "freeSpin list"
  bigWins :: "bigWin list"

text \<open>
  The data file: absent, unreadable, holding text that is not JSON, or holding the
  document of a store. (A document of another shape is outside the model: the store is
  typed.)
\<close>

datatype persisted = NoFile | Unreadable | NotJson | Stored analytics

datatype load_error = ENOENT | EIO | SyntaxError

text \<open>
  \<^verbatim>\<open>
  function readData() {
      try {
          const data = fs.readFileSync(DATA_FILE, 'utf8');
          return JSON.parse(data);
      } catch (err) {
          return { visits: [], spins: [], freeSpins: [], bigWins: [] };
      }
  }
  \<close>
  \<open>load\<close> is the body of the \<open>try\<close>, with its exceptions as values.
\<close>

fun load :: "persisted \<Rightarrow> load_error + analytics" where
  "load NoFile = Inl ENOENT"
| "load Unreadable = Inl EIO"
| "load NotJson = Inl SyntaxError"
| "load (Stored a) = Inr a"

definition empty_state :: analytics where
  "empty_state = \<lparr>visits = [], spins = [], freeSpins = [], bigWins = []\<rparr>"

definition readData :: "persisted \<Rightarrow> analytics" where
  "readData disk = (case load disk of Inr a \<Rightarrow> a | Inl err \<Rightarrow> empty_state)"

text \<open>
  \<^verbatim>\<open>
  function writeData(data) {
      try {
          fs.writeFileSync(DATA_FILE, JSON.stringify(data, null, 2));
          return true;
      } catch (err) {
          return false;
      }
  }
  \<close>
  Whether the write goes through is the environment's choice, the argument \<open>ok\<close>; a
  write that fails leaves the file as it was.
\<close>

definition writeData :: "bool \<Rightarrow> analytics \<Rightarrow> persisted \<Rightarrow> bool \<times> persisted" where
  "writeData ok data disk = (if ok then (True, Stored data) else (False, disk))"

section \<open>Ingestion: \<open>POST /track\<close>\<close>

text \<open>
  \<open>String(x)\<close>. How a finite number prints is the run time's \<open>Number::toString\<close>,
  the parameter \<open>n2s\<close> of everything that prints a number.
\<close>

fun number_to_string :: "(rat \<Rightarrow> string) \<Rightarrow> jsnum \<Rightarrow> string" where
  "number_to_string n2s NaN = ''NaN''"
| "number_to_string n2s PosInf = ''Infinity''"
| "number_to_string n2s NegInf = ''-Infinity''"
| "number_to_string n2s (Fin r) = n2s r"

fun join :: "string list \<Rightarrow> string" where
  "join [] = []"
| "join [s] = s"
| "join (s # t # ss) = s @ '','' @ join (t # ss)"

fun printed :: "(rat \<Rightarrow> string) \<Rightarrow> jsval \<Rightarrow> string"
  and printed_element :: "(rat \<Rightarrow> string) \<Rightarrow> jsval \<Rightarrow> string" where
  "printed n2s JUndefined = ''undefined''"
| "printed n2s JNull = ''null''"
| "printed n2s (JBool b) = (if b then ''true'' else ''false'')"
| "printed n2s (JNum n) = number_to_string n2s n"
| "printed n2s (JStr s) = s"
| "printed n2s (JArr xs) = join (map (printed_element n2s) xs)"
| "printed n2s (JObj kvs) = ''[object Object]''"
| "printed_element n2s v = (if v = JUndefined \<or> v = JNull then [] else printed n2s v)"

definition String :: "(rat \<Rightarrow> string) \<Rightarrow> jsval \<Rightarrow> exception + string" where
  "String n2s v = (if not_convertible v then Inl TypeError else Inr (printed n2s v))"

text \<open>\<open>xs.map(f)\<close> for a callback that may throw: the first exception ends the loop.\<close>

fun map_throwing :: "('a \<Rightarrow> exception + 'b) \<Rightarrow> 'a list \<Rightarrow> exception + 'b list" where
  "map_throwing f [] = Inr []"
| "map_throwing f (x # xs) =
     (case f x of
        Inl thrown \<Rightarrow> Inl thrown
      | Inr y \<Rightarrow> (case map_throwing f xs of Inl thrown \<Rightarrow> Inl thrown | Inr ys \<Rightarrow> Inr (y # ys)))"

text \<open>The characters of a value that is a string.\<close>

fun string_value :: "jsval \<Rightarrow> string" where
  "string_value (JStr s) = s"
| "string_value v = []"

datatype response = Success | Error nat string

definition server_error :: response where
  "server_error = Error 500 ''Server error''"

text \<open>
  The \<open>switch\<close> of the handler: the checks of the event's kind, the push of the new
  record and the trim of the log to its most recent entries. \<open>Inl\<close> is a response
  that ends the request: the early \<open>return res.status(400)\<close>, or the 500 of the
  \<open>catch\<close> when a conversion throws. No matching \<open>case\<close> leaves the store as it is.
\<close>

definition track_switch ::
  "(rat \<Rightarrow> string) \<Rightarrow> string \<Rightarrow> string \<Rightarrow> jsval \<Rightarrow> analytics \<Rightarrow> response + analytics" where
  "track_switch n2s now eventType data analytics =
     (if eventType = ''visit'' then
        (if \<not> truthy (get data ''sessionId'') then Inl (Error 400 ''Missing sessionId'')
         else
           let pushed = visits analytics @
                 [\<lparr>timestamp = now,
                   sessionId = sanitize (get data ''sessionId'') 50,
                   userAgent = sanitize (get data ''userAgent'') 300,
                   screenSize = sanitize (get data ''screenSize'') 20,
                   referrer = sanitize (get data ''referrer'') 200\<rparr>]
           in Inr (analytics\<lparr>visits :=
                 if length pushed > 10000 then slice pushed (Fin (- 10000)) None else pushed\<rparr>))
      else if eventType = ''spin'' then
        (case validateNumber (get data ''bet'') 0 10000 of
           Inl thrown \<Rightarrow> Inl server_error
         | Inr bet' \<Rightarrow>
        (case validateNumber (get data ''win'') 0 10000000 of
           Inl thrown \<Rightarrow> Inl server_error
         | Inr win' \<Rightarrow>
            if bet' = None \<or> win' = None then Inl (Error 400 ''Invalid bet or win'')
            else
              (case (case get data ''symbols'' of
                       JArr xs \<Rightarrow>
                         map_throwing
                           (\<lambda>s. map_sum id (\<lambda>str. sanitize (JStr str) 20) (String n2s s))
                           (slice xs (Fin 0) (Some (Fin 18)))
                     | _ \<Rightarrow> Inr []) of
                 Inl thrown \<Rightarrow> Inl server_error
               | Inr symbols' \<Rightarrow>
                   let pushed = spins analytics @
                         [\<lparr>timestamp = now,
                           sessionId = sanitize (get data ''sessionId'') 50,
                           bet = the bet',
                           win = the win',
                           symbols = symbols'\<rparr>]
                   in Inr (analytics\<lparr>spins :=
                         if length pushed > 50000 then slice pushed (Fin (- 50000)) None
                         else pushed\<rparr>))))
      else if eventType = ''freeSpins'' then
        (case validateNumber (get data ''totalWin'') 0 10000000 of
           Inl thrown \<Rightarrow> Inl server_error
         | Inr fsWin \<Rightarrow>
            if fsWin = None then Inl (Error 400 ''Invalid totalWin'')
            else
              (case validateNumber (get data ''spinsCount'') 0 100 of
                 Inl thrown \<Rightarrow> Inl server_error
               | Inr spinsCount' \<Rightarrow>
                   let pushed = freeSpins analytics @
                         [\<lparr>timestamp = now,
                           sessionId = sanitize (get data ''sessionId'') 50,
                           mode = sanitize (get data ''mode'') 20,
                           totalWin = the fsWin,
                           spinsCount =
                             (case spinsCount' of
                                None \<Rightarrow> Fin 0
                              | Some n \<Rightarrow> if truthy (JNum n) then n else Fin 0)\<rparr>]
                   in Inr (analytics\<lparr>freeSpins :=
                         if length pushed > 5000 then slice pushed (Fin (- 5000)) None
                         else pushed\<rparr>)))
      else if eventType = ''bigWin'' then
        (case validateNumber (get data ''amount'') 0 10000000 of
           Inl thrown \<Rightarrow> Inl server_error
         | Inr bigWinAmount \<Rightarrow>
            if bigWinAmount = None then Inl (Error 400 ''Invalid amount'')
            else
              let validTiers = [''big'', ''mega'', ''epic''];
                  tier = (case get data ''tier'' of
                            JStr t \<Rightarrow> if t \<in> set validTiers then t else ''big''
                          | _ \<Rightarrow> ''big'');
                  pushed = bigWins analytics @
                    [\<lparr>timestamp = now,
                      sessionId = sanitize (get data ''sessionId'') 50,
                      tier = tier,
                      amount = the bigWinAmount\<rparr>]
              in Inr (analytics\<lparr>bigWins :=
                    if length pushed > 5000 then slice pushed (Fin (- 5000)) None else pushed\<rparr>))
      else Inr analytics)"

text \<open>
  The handler. \<open>now\<close> is \<open>new Date().toISOString()\<close>, \<open>write_ok\<close> whether the write
  of this request goes through, \<open>body\<close> the parsed request body (\<open>undefined\<close> when none
  was parsed). The result is the response and the data file after the request.

  The destructuring \<open>const { eventType, data } = req.body\<close> throws for \<open>undefined\<close> and
  \<open>null\<close>; that and the \<open>TypeError\<close> of \<open>validateKeys\<close> reach the \<open>catch\<close>, which
  answers 500. The result of \<open>writeData\<close> is dropped.
\<close>

definition track ::
  "(rat \<Rightarrow> string) \<Rightarrow> string \<Rightarrow> bool \<Rightarrow> jsval \<Rightarrow> persisted \<Rightarrow> response \<times> persisted" where
  "track n2s now write_ok body disk =
     (if body = JUndefined \<or> body = JNull then (server_error, disk)
      else
        let eventType = get body ''eventType''; data = get body ''data''
        in if \<not> truthy body \<or> \<not> typeof_object body then (Error 400 ''Invalid request'', disk)
           else if validateKeys body (Fields [''eventType'', ''data'']) \<noteq> Some True
             then (Error 400 ''Invalid request'', disk)
           else if \<not> truthy eventType \<or> \<not> typeof_string eventType
             then (Error 400 ''Invalid event type'', disk)
           else if \<not> truthy data \<or> \<not> typeof_object data then (Error 400 ''Invalid data'', disk)
           else
             case EVENT_SCHEMAS (string_value eventType) of
               None \<Rightarrow> (Error 400 ''Unknown event type'', disk)
             | Some allowed \<Rightarrow>
                 (case validateKeys data allowed of
                    None \<Rightarrow> (server_error, disk)
                  | Some False \<Rightarrow> (Error 400 ''Invalid data fields'', disk)
                  | Some True \<Rightarrow>
                      (case track_switch n2s now (string_value eventType) data (readData disk) of
                         Inl rejection \<Rightarrow> (rejection, disk)
                       | Inr analytics \<Rightarrow> (Success, snd (writeData write_ok analytics disk)))))"

section \<open>Aggregation: \<open>GET /stats\<close>\<close>

text \<open>
  \<open>x.toFixed(f)\<close>: a number that is not finite, or of magnitude \<open>10^21\<close> and more,
  prints as \<open>String(x)\<close> does; any other is rounded to \<open>f\<close> decimals, the nearest,
  and of two equally near the larger, and written with its sign, at least one digit
  before the point and exactly \<open>f\<close> after it.
\<close>

definition toFixed :: "(rat \<Rightarrow> string) \<Rightarrow> jsnum \<Rightarrow> nat \<Rightarrow> string" where
  "toFixed n2s x f =
     (case x of
        Fin r \<Rightarrow>
          (let s = (if r < 0 then ''-'' else []); y = \<bar>r\<bar>
           in if 10 ^ 21 \<le> y then s @ n2s y
              else
                let n = nat \<lfloor>y * 10 ^ f + 1 / 2\<rfloor>;
                    m = decimal n;
                    m = (if f \<noteq> 0 \<and> length m \<le> f
                         then replicate (f + 1 - length m) (CHR ''0'') @ m else m);
                    k = length m
                in if f \<noteq> 0 then s @ take (k - f) m @ ''.'' @ drop (k - f) m else s @ m)
      | _ \<Rightarrow> number_to_string n2s x)"

text \<open>\<open>spins.reduce((sum, s) => sum + s.field, 0)\<close>\<close>

definition reduce_sum :: "('a \<Rightarrow> jsnum) \<Rightarrow> 'a list \<Rightarrow> jsnum" where
  "reduce_sum field xs = foldl (\<lambda>sum s. jadd sum (field s)) (Fin 0) xs"

text \<open>
  The counting object \<open>symbolCounts = {}\<close>, as the list of its own properties in the
  order of their creation. A cell is a count or, for a symbol that names a member
  inherited from \<open>Object.prototype\<close>, the text that \<open>+ 1\<close> makes of that member: a
  string, \<open>Text\<close>, which is truthy and stays a string under \<open>+ 1\<close>.

  \<^verbatim>\<open>symbolCounts[sym] = (symbolCounts[sym] || 0) + 1;\<close>

  The assignment to \<open>__proto__\<close> goes to the setter of \<open>Object.prototype\<close>, which
  ignores a string: no property is created.
\<close>

datatype cell = Count nat | Text

fun is_count :: "cell \<Rightarrow> bool" where
  "is_count (Count n) = True"
| "is_count Text = False"

fun count_of :: "cell \<Rightarrow> nat" where
  "count_of (Count n) = n"
| "count_of Text = 0"

fun assign :: "(string \<times> cell) list \<Rightarrow> string \<Rightarrow> cell \<Rightarrow> (string \<times> cell) list" where
  "assign [] k v = [(k, v)]"
| "assign ((k', v') # kvs) k v = (if k' = k then (k, v) # kvs else (k', v') # assign kvs k v)"

definition count_symbol :: "(string \<times> cell) list \<Rightarrow> string \<Rightarrow> (string \<times> cell) list" where
  "count_symbol symbolCounts symbol =
     (case map_of symbolCounts symbol of
        Some (Count n) \<Rightarrow> assign symbolCounts symbol (Count (n + 1))
      | Some Text \<Rightarrow> assign symbolCounts symbol Text
      | None \<Rightarrow>
          if symbol = ''__proto__'' then symbolCounts
          else if symbol \<in> set Object_prototype_names then assign symbolCounts symbol Text
          else assign symbolCounts symbol (Count 1))"

text \<open>
  \<open>Object.entries\<close> lists the own properties: first those whose name is an array index
  (the decimal numeral, without leading zeros, of a number up to \<open>2^32 - 2\<close>) in ascending
  numeric order, then the others in the order of their creation.
\<close>

definition is_array_index :: "string \<Rightarrow> bool" where
  "is_array_index k \<longleftrightarrow>
     k \<noteq> [] \<and> list_all is_digit k \<and> (k = ''0'' \<or> hd k \<noteq> CHR ''0'')
     \<and> digits_value 10 k \<le> 4294967294"

definition Object_entries :: "(string \<times> 'a) list \<Rightarrow> (string \<times> 'a) list" where
  "Object_entries props =
     sort_key (\<lambda>p. digits_value 10 (fst p)) (filter (\<lambda>p. is_array_index (fst p)) props)
     @ filter (\<lambda>p. \<not> is_array_index (fst p)) props"

text \<open>
  \<open>entries.sort((a, b) => b[1] - a[1])\<close>. The sort is stable (ECMAScript 2019). When
  every count is a number the comparison orders by descending count; a \<open>Text\<close> makes it
  \<open>NaN\<close>, the comparison function is then not consistent and the order is left to the
  implementation: \<open>None\<close>.
\<close>

definition sort_by_count :: "(string \<times> cell) list \<Rightarrow> (string \<times> cell) list option" where
  "sort_by_count entries =
     (if list_all (\<lambda>e. is_count (snd e)) entries
      then Some (sort_key (\<lambda>e. - int (count_of (snd e))) entries)
      else None)"

record stats_response =
  totalVisits :: nat
  uniqueSessions :: nat
  totalSpins :: nat
  totalWagered :: string
  totalWon :: string
  houseEdge :: jsval
  avgBet :: jsval
  topSymbols :: "(string \<times> cell) list option"
  fsTriggerRate :: jsval

text \<open>
  The handler, up to the fields above: \<open>bigWinCounts\<close> is left out, and so are
  \<open>spinsByHour\<close> and \<open>lastUpdated\<close>, which read the clock.
  \<open>x ? y.toFixed(2) : 0\<close> is a string or the number zero.
\<close>

definition stats :: "(rat \<Rightarrow> string) \<Rightarrow> persisted \<Rightarrow> stats_response" where
  "stats n2s disk =
     (let analytics = readData disk;
          uniqueSessions = length (remdups (map sessionId (visits analytics)));
          totalVisits = length (visits analytics);
          totalSpins = length (spins analytics);
          totalWagered = reduce_sum bet (spins analytics);
          totalWon = reduce_sum win (spins analytics);
          houseEdge =
            (if jless (Fin 0) totalWagered
             then JStr (toFixed n2s
                    (jmul (jdiv (jsub totalWagered totalWon) totalWagered) (Fin 100)) 2)
             else JNum (Fin 0));
          avgBet =
            (if 0 < totalSpins
             then JStr (toFixed n2s (jdiv totalWagered (Fin (of_nat totalSpins))) 2)
             else JNum (Fin 0));
          symbolCounts =
            foldl (\<lambda>counts spin. foldl count_symbol counts (symbols spin)) []
              (spins analytics);
          topSymbols =
            map_option (\<lambda>sorted. slice sorted (Fin 0) (Some (Fin 10)))
              (sort_by_count (Object_entries symbolCounts));
          fsTriggerRate =
            (if 0 < totalSpins
             then JStr (toFixed n2s
                    (jmul (jdiv (Fin (of_nat (length (freeSpins analytics))))
                             (Fin (of_nat totalSpins))) (Fin 100)) 2)
             else JNum (Fin 0))
      in \<lparr>totalVisits = totalVisits,
          uniqueSessions = uniqueSessions,
          totalSpins = totalSpins,
          totalWagered = toFixed n2s totalWagered 2,
          totalWon = toFixed n2s totalWon 2,
          houseEdge = houseEdge,
          avgBet = avgBet,
          topSymbols = topSymbols,
          fsTriggerRate = fsTriggerRate\<rparr>)"

section \<open>Queries: \<open>GET /spins\<close>, \<open>GET /bigwins\<close>, \<open>GET /sessions\<close>\<close>









section \<open>Notions used to state the properties\<close>

text \<open>The \<open>n\<close> most recent entries of a log.\<close>

definition keep_last :: "nat \<Rightarrow> 'a list \<Rightarrow> 'a list" where
  "keep_last n xs = drop (length xs - n) xs"

text \<open>
  The server handling a sequence of requests, each with the time of its arrival, the
  fate of its write and its body; the data file is the only state between requests.
\<close>

fun serve ::
  "(rat \<Rightarrow> string) \<Rightarrow> (string \<times> bool \<times> jsval) list \<Rightarrow> persisted \<Rightarrow> persisted" where
  "serve n2s [] disk = disk"
| "serve n2s ((now, write_ok, body) # requests) disk =
     serve n2s requests (snd (track n2s now write_ok body disk))"



text \<open>A store extended by what one request appends, each log trimmed to its cap.\<close>

definition with_appended :: "analytics \<Rightarrow> analytics \<Rightarrow> analytics" where
  "with_appended a e =
     \<lparr>visits = (if visits e = [] then visits a else keep_last 10000 (visits a @ visits e)),
      spins = (if spins e = [] then spins a else keep_last 50000 (spins a @ spins e)),
      freeSpins =
        (if freeSpins e = [] then freeSpins a
         else keep_last 5000 (freeSpins a @ freeSpins e)),
      bigWins =
        (if bigWins e = [] then bigWins a else keep_last 5000 (bigWins a @ bigWins e))\<rparr>"

text \<open>
  All symbols of a store, in the order the statistics read them; the distinct ones in
  the order of their first occurrence; and the order in which \<open>Object.entries\<close> lists
  them as property names: array indices ascending, then the rest by first occurrence.
\<close>

definition all_symbols :: "analytics \<Rightarrow> string list" where
  "all_symbols a = concat (map symbols (spins a))"

definition first_seen :: "'a list \<Rightarrow> 'a list" where
  "first_seen xs = rev (remdups (rev xs))"

definition own_key_order :: "string list \<Rightarrow> string list" where
  "own_key_order syms =
     sort_key (digits_value 10) (filter is_array_index (first_seen syms))
     @ filter (\<lambda>k. \<not> is_array_index k) (first_seen syms)"

text \<open>
  The ranking that ``descending by count, ties by first occurrence'' describes: a
  stable sort of the distinct symbols in the order of their first occurrence.
\<close>

definition ranking_by_first_seen :: "string list \<Rightarrow> (string \<times> cell) list" where
  "ranking_by_first_seen syms =
     take 10 (map (\<lambda>k. (k, Count (count_list syms k)))
       (sort_key (\<lambda>k. - int (count_list syms k)) (first_seen syms)))"

text \<open>The request body \<open>{eventType: "spin", data: {bet: b, win: w}}\<close>.\<close>

definition spin_body :: "rat \<Rightarrow> rat \<Rightarrow> jsval" where
  "spin_body b w =
     JObj [(''eventType'', JStr ''spin''),
           (''data'', JObj [(''bet'', JNum (Fin b)), (''win'', JNum (Fin w))])]"

section \<open>Slices as prefixes and suffixes\<close>

lemma to_integer_of_nat [simp]: "to_integer (of_nat n) = int n"
  by (simp add: to_integer_def)

lemma to_integer_of_int [simp]: "to_integer (of_int i) = i"
  by (simp add: to_integer_def)

lemma slice_prefix: "slice xs (Fin 0) (Some (Fin (of_nat n))) = take n xs"
proof -
  have "to_integer 0 = 0" by (simp add: to_integer_def)
  then show ?thesis by (simp add: slice_def Let_def min_def)
qed

lemma slice_suffix:
  assumes "0 < n"
  shows "slice xs (Fin (- of_nat n)) None = drop (length xs - n) xs"
proof -
  have t: "to_integer (- of_nat n) = - int n"
    using to_integer_of_int [of "- int n"] by simp
  have "relative_index (length xs) (Fin (- of_nat n)) = length xs - n"
    using assms by (simp add: t Let_def)
  then show ?thesis by (simp add: slice_def Let_def)
qed

lemma slice_suffix_numeral:
  "slice xs (Fin (- numeral k)) None = drop (length xs - numeral k) xs"
  using slice_suffix [of "numeral k" xs] by simp

lemma slice_prefix_numeral:
  "slice xs (Fin 0) (Some (Fin (numeral k))) = take (numeral k) xs"
  using slice_prefix [of xs "numeral k"] by simp


section \<open>Properties of the sanitizer\<close>

lemma sanitize_length: "length (sanitize v m) \<le> m"
proof (cases v)
  case (JStr s)
  have "length (filter (\<lambda>c. \<not> control_char c)
          (filter (\<lambda>c. \<not> html_special c) (take m s))) \<le> length (take m s)"
    by (rule le_trans [OF length_filter_le length_filter_le])
  also have "\<dots> \<le> m" by simp
  finally show ?thesis by (simp add: sanitize_def JStr slice_prefix)
qed (simp_all add: sanitize_def)

lemma sanitize_clean:
  "c \<in> set (sanitize v m) \<Longrightarrow> \<not> html_special c \<and> \<not> control_char c"
  by (cases v) (auto simp: sanitize_def slice_prefix)

lemma sanitize_fixpoint:
  assumes "length s \<le> m" and "\<forall>c \<in> set s. \<not> html_special c \<and> \<not> control_char c"
  shows "sanitize (JStr s) m = s"
  using assms by (simp add: sanitize_def slice_prefix)

text \<open>
  Claim C3. For every string \<open>x\<close> and maximum length \<open>m\<close>: sanitizing twice is the same
  as sanitizing once; the output holds none of the denylisted characters (the angle
  brackets, the single and the double quote, the ampersand, the backslash, the control
  characters 0x00 to 0x1F and 0x7F); and the output is at most \<open>m\<close> long.
\<close>

theorem sanitize_idempotent_clean_bounded:
  "sanitize (JStr (sanitize (JStr x) m)) m = sanitize (JStr x) m
   \<and> (\<forall>c \<in> set (sanitize (JStr x) m).
        c \<notin> {CHR ''<'', CHR ''>'', CHR 0x27, CHR 0x22, CHR ''&'', CHR 0x5C}
        \<and> \<not> (of_char c :: nat) \<le> 0x1F \<and> (of_char c :: nat) \<noteq> 0x7F)
   \<and> length (sanitize (JStr x) m) \<le> m"
proof (intro conjI ballI)
  show "sanitize (JStr (sanitize (JStr x) m)) m = sanitize (JStr x) m"
    by (rule sanitize_fixpoint) (auto simp: sanitize_length dest: sanitize_clean)
next
  fix c assume c: "c \<in> set (sanitize (JStr x) m)"
  from sanitize_clean [OF c]
  show "c \<notin> {CHR ''<'', CHR ''>'', CHR 0x27, CHR 0x22, CHR ''&'', CHR 0x5C}"
    by (simp add: html_special_def)
  from sanitize_clean [OF c]
  show "\<not> (of_char c :: nat) \<le> 0x1F" and "(of_char c :: nat) \<noteq> 0x7F"
    by (simp_all add: control_char_def)
next
  show "length (sanitize (JStr x) m) \<le> m" by (rule sanitize_length)
qed

theorem sanitize_idempotent_clean_bounded_witness:
  "sanitize (JStr ''a<script>'') 50 = ''ascript''
   \<and> sanitize (JStr (sanitize (JStr ''a<script>'') 50)) 50 = ''ascript''
   \<and> CHR ''s'' \<in> set (sanitize (JStr ''a<script>'') 50)
   \<and> CHR ''s'' \<notin> {CHR ''<'', CHR ''>'', CHR 0x27, CHR 0x22, CHR ''&'', CHR 0x5C}
   \<and> \<not> (of_char CHR ''s'' :: nat) \<le> 0x1F \<and> (of_char CHR ''s'' :: nat) \<noteq> 0x7F
   \<and> length (sanitize (JStr ''a<script>'') 50) \<le> 50"
proof -
  have "slice ''a<script>'' (Fin 0) (Some (Fin (of_nat 50))) = ''a<script>''"
    unfolding slice_prefix by simp
  then have e: "sanitize (JStr ''a<script>'') 50 = ''ascript''"
    by (simp add: sanitize_def html_special_def control_char_def)
  from sanitize_idempotent_clean_bounded [of "''a<script>''" 50] show ?thesis
    unfolding e by simp
qed

section \<open>Properties of the ingestion handler\<close>

lemma keys_nonempty_object: "keys v \<noteq> [] \<Longrightarrow> truthy v \<and> typeof_object v"
  by (cases v) simp_all

lemma get_defined_object:
  "get v name \<noteq> JUndefined \<Longrightarrow>
     truthy v \<and> typeof_object v \<and> v \<noteq> JUndefined \<and> v \<noteq> JNull"
  by (cases v) simp_all

lemma validateKeys_Fields:
  "validateKeys v (Fields allowed) =
     Some (truthy v \<and> typeof_object v \<and> set (keys v) \<subseteq> set allowed)"
  by (auto simp: validateKeys_def list_all_iff)

lemma EVENT_SCHEMAS_nonempty: "EVENT_SCHEMAS et = Some sch \<Longrightarrow> et \<noteq> []"
  by (auto simp: EVENT_SCHEMAS_def Object_prototype_names_def split: if_splits)

lemma readData_simps [simp]:
  "readData NoFile = empty_state" "readData Unreadable = empty_state"
  "readData NotJson = empty_state" "readData (Stored a) = a"
  by (simp_all add: readData_def)

lemma empty_state_simps [simp]:
  "visits empty_state = []" "spins empty_state = []"
  "freeSpins empty_state = []" "bigWins empty_state = []"
  by (simp_all add: empty_state_def)

text \<open>
  Claim C2. A request whose envelope has a key other than \<open>eventType\<close> and \<open>data\<close> is
  answered 400 ``Invalid request''. A request for one of the four kinds whose \<open>data\<close> has
  a key outside the kind's field list is answered 400 as well (``Invalid data fields'',
  unless the envelope is already refused). Either way the data file stays as it was:
  nothing is appended, nothing is written.
\<close>

theorem unknown_keys_rejected:
  "(\<not> set (keys body) \<subseteq> {''eventType'', ''data''} \<longrightarrow>
      track n2s now ok body disk = (Error 400 ''Invalid request'', disk))
   \<and> (get body ''eventType'' = JStr et \<and> EVENT_SCHEMAS et = Some (Fields allowed)
        \<and> \<not> set (keys (get body ''data'')) \<subseteq> set allowed \<longrightarrow>
      track n2s now ok body disk =
        (Error 400 (if set (keys body) \<subseteq> {''eventType'', ''data''}
                    then ''Invalid data fields'' else ''Invalid request''), disk))"
proof (intro conjI impI)
  assume a: "\<not> set (keys body) \<subseteq> {''eventType'', ''data''}"
  then have "keys body \<noteq> []" by auto
  from keys_nonempty_object [OF this] have "body \<noteq> JUndefined" "body \<noteq> JNull"
    by auto
  with a show "track n2s now ok body disk = (Error 400 ''Invalid request'', disk)"
    by (simp add: track_def Let_def validateKeys_Fields)
next
  assume b: "get body ''eventType'' = JStr et \<and> EVENT_SCHEMAS et = Some (Fields allowed)
        \<and> \<not> set (keys (get body ''data'')) \<subseteq> set allowed"
  then have "get body ''eventType'' \<noteq> JUndefined" by simp
  from get_defined_object [OF this]
  have body: "truthy body" "typeof_object body" "body \<noteq> JUndefined" "body \<noteq> JNull"
    by auto
  from b have "keys (get body ''data'') \<noteq> []" by auto
  from keys_nonempty_object [OF this]
  have data: "truthy (get body ''data'')" "typeof_object (get body ''data'')" by auto
  from b have et: "et \<noteq> []" by (auto dest: EVENT_SCHEMAS_nonempty)
  from b body data et
  show "track n2s now ok body disk =
        (Error 400 (if set (keys body) \<subseteq> {''eventType'', ''data''}
                    then ''Invalid data fields'' else ''Invalid request''), disk)"
    by (simp add: track_def Let_def validateKeys_Fields)
qed

theorem unknown_keys_rejected_witness:
  "track (\<lambda>r. []) ''2026-01-01T00:00:00.000Z'' True
     (JObj [(''eventType'', JStr ''visit''), (''data'', JObj [(''sessionId'', JStr ''s1'')]),
            (''admin'', JBool True)])
     (Stored empty_state)
     = (Error 400 ''Invalid request'', Stored empty_state)
   \<and> track (\<lambda>r. []) ''2026-01-01T00:00:00.000Z'' True
       (JObj [(''eventType'', JStr ''visit''),
              (''data'', JObj [(''sessionId'', JStr ''s1''), (''admin'', JBool True)])])
       (Stored empty_state)
     = (Error 400 ''Invalid data fields'', Stored empty_state)"
  using
    unknown_keys_rejected [where
      body = "JObj [(''eventType'', JStr ''visit''),
                    (''data'', JObj [(''sessionId'', JStr ''s1'')]), (''admin'', JBool True)]"
      and n2s = "\<lambda>r. []" and now = "''2026-01-01T00:00:00.000Z''" and ok = True
      and disk = "Stored empty_state" and et = "''visit''"
      and allowed = "[''sessionId'', ''userAgent'', ''screenSize'', ''referrer'']"]
    unknown_keys_rejected [where
      body = "JObj [(''eventType'', JStr ''visit''),
                    (''data'', JObj [(''sessionId'', JStr ''s1''), (''admin'', JBool True)])]"
      and n2s = "\<lambda>r. []" and now = "''2026-01-01T00:00:00.000Z''" and ok = True
      and disk = "Stored empty_state" and et = "''visit''"
      and allowed = "[''sessionId'', ''userAgent'', ''screenSize'', ''referrer'']"]
  by (simp add: EVENT_SCHEMAS_def)

lemma validateNumber_cases:
  "validateNumber v lo hi =
     (if not_convertible v then Inl TypeError
      else Inr (case parseFloat_printed v of
                  Fin r \<Rightarrow> if lo \<le> r \<and> r \<le> hi then Some (Fin r) else None
                | _ \<Rightarrow> None))"
  by (cases "parseFloat_printed v") (auto simp: validateNumber_def parseFloat_def isNaN_def)







text \<open>
  Claim C5. When the data file cannot be loaded (it is missing, unreadable or not
  JSON), \<open>readData\<close> returns the empty state. The response of the ingestion handler is
  the same whether the write goes through or fails; in particular a request that is
  acknowledged when the write succeeds is acknowledged when it fails, and the file then
  stays as it was.
\<close>

theorem storage_failures_absorbed:
  "(load disk = Inl err \<longrightarrow> readData disk = empty_state)
   \<and> fst (track n2s now False body disk) = fst (track n2s now True body disk)
   \<and> (fst (track n2s now True body disk) = Success \<longrightarrow>
        track n2s now False body disk = (Success, disk))"
  by (auto simp: readData_def track_def Let_def writeData_def
      split: option.splits bool.splits sum.splits)

theorem storage_failures_absorbed_witness:
  "load NotJson = Inl SyntaxError \<and> readData NotJson = empty_state
   \<and> fst (track (\<lambda>r. []) ''2026-01-01T00:00:00.000Z'' True (spin_body 10 0) NotJson) = Success
   \<and> track (\<lambda>r. []) ''2026-01-01T00:00:00.000Z'' False (spin_body 10 0) NotJson
       = (Success, NotJson)"
proof -
  have "fst (track (\<lambda>r. []) ''2026-01-01T00:00:00.000Z'' True (spin_body 10 0) NotJson)
      = Success"
    by (simp add: spin_body_def track_def Let_def validateKeys_Fields EVENT_SCHEMAS_def
        track_switch_def validateNumber_cases writeData_def)
  with storage_failures_absorbed [where disk = NotJson and err = SyntaxError
      and n2s = "\<lambda>r. []" and now = "''2026-01-01T00:00:00.000Z''"
      and body = "spin_body 10 0"]
  show ?thesis by simp
qed

lemma push_trim:
  "(if numeral k < length xs then slice xs (Fin (- numeral k)) None else xs)
     = keep_last (numeral k) xs"
  by (simp add: slice_suffix_numeral keep_last_def)

lemma keep_last_snoc:
  "keep_last (numeral k) (xs @ [x]) = drop (Suc (length xs) - numeral k) xs @ [x]"
  by (simp add: keep_last_def)

lemma sanitize_nonstring: "\<not> typeof_string v \<Longrightarrow> sanitize v m = []"
  by (cases v) (simp_all add: sanitize_def)

text \<open>
  Claim C10. A visit whose \<open>sessionId\<close> is truthy but not a string (a number, an array,
  an object, \<open>true\<close>) passes validation, given an envelope and field names that are in
  order: the request is acknowledged, and the record it appends, the last of the stored
  visits, has the empty string as its \<open>sessionId\<close>.
\<close>

theorem visit_nonstring_session:
  assumes "validateKeys body (Fields [''eventType'', ''data'']) = Some True"
    and "get body ''eventType'' = JStr ''visit''"
    and "validateKeys (get body ''data'')
           (Fields [''sessionId'', ''userAgent'', ''screenSize'', ''referrer'']) = Some True"
    and "truthy (get (get body ''data'') ''sessionId'')"
    and "\<not> typeof_string (get (get body ''data'') ''sessionId'')"
  shows "\<exists>a. track n2s now True body disk = (Success, Stored a)
           \<and> visits a \<noteq> [] \<and> sessionId (last (visits a)) = []
           \<and> timestamp (last (visits a)) = now
           \<and> butlast (visits a)
               = drop (Suc (length (visits (readData disk))) - 10000) (visits (readData disk))"
proof -
  from assms(2) have "get body ''eventType'' \<noteq> JUndefined" by simp
  from get_defined_object [OF this]
  have body: "truthy body" "typeof_object body" "body \<noteq> JUndefined" "body \<noteq> JNull"
    by auto
  from assms(3) have data: "truthy (get body ''data'')" "typeof_object (get body ''data'')"
    by (simp_all add: validateKeys_Fields)
  show ?thesis
    using assms body data
    unfolding track_def Let_def track_switch_def push_trim keep_last_snoc
    by (simp add: EVENT_SCHEMAS_def writeData_def sanitize_nonstring)
qed

theorem visit_nonstring_session_witness:
  "\<exists>a. track (\<lambda>r. []) ''2026-01-01T00:00:00.000Z'' True
          (JObj [(''eventType'', JStr ''visit''),
                 (''data'', JObj [(''sessionId'', JArr [JNum (Fin 7)])])])
          NoFile = (Success, Stored a)
       \<and> visits a \<noteq> [] \<and> sessionId (last (visits a)) = []
       \<and> timestamp (last (visits a)) = ''2026-01-01T00:00:00.000Z''
       \<and> butlast (visits a) = []"
  using visit_nonstring_session [where
      body = "JObj [(''eventType'', JStr ''visit''),
             (''data'', JObj [(''sessionId'', JArr [JNum (Fin 7)])])]"
      and n2s = "\<lambda>r. []" and now = "''2026-01-01T00:00:00.000Z''" and disk = NoFile]
  by (simp add: validateKeys_Fields)

section \<open>Retention\<close>



lemma keep_last_single [simp]: "keep_last (numeral k) [x] = [x]"
  by (simp add: keep_last_def)

lemma extend_empty [simp]: "with_appended a empty_state = a"
  by (simp add: with_appended_def)

















section \<open>Properties of the statistics\<close>

lemma floor_rat_numeral_div [simp]:
  "\<lfloor>numeral a / numeral b :: rat\<rfloor> = numeral a div numeral b"
  by (metis floor_divide_of_int_eq of_int_numeral)

lemma decimal_numeral:
  "decimal (numeral k) =
     (if (numeral k :: nat) < 10 then [digit_char (numeral k)]
      else decimal (numeral k div 10) @ [digit_char (numeral k mod 10)])"
  by (rule decimal.simps)

lemma decimal_small: "decimal 0 = ''0''" "decimal 1 = ''1''" "decimal (Suc 0) = ''1''"
  by (simp_all add: decimal.simps [of 0] decimal.simps [of 1] decimal.simps [of "Suc 0"] digit_char_def)

lemma track_spin:
  "track n2s now True (spin_body b w) disk =
     (if 0 \<le> b \<and> b \<le> 10000 \<and> 0 \<le> w \<and> w \<le> 10000000
      then (Success, Stored ((readData disk)\<lparr>spins :=
              keep_last 50000 (spins (readData disk) @
                [\<lparr>timestamp = now, sessionId = [], bet = Fin b, win = Fin w, symbols = []\<rparr>])\<rparr>))
      else (Error 400 ''Invalid bet or win'', disk))"
  unfolding track_def Let_def track_switch_def push_trim spin_body_def
  by (simp add: validateKeys_Fields EVENT_SCHEMAS_def validateNumber_cases writeData_def
      sanitize_def)

text \<open>
  Claim C7. From the empty store, after three spins with bet 10 and win 0 and one spin
  with bet 10 and win 100 (sent at any four times), the statistics count 4 spins, the
  bets sum to 40 and the wins to 100; the response reports them as \<open>"40.00"\<close> and
  \<open>"100.00"\<close>, and the house edge as \<open>"-150.00"\<close>.
\<close>

theorem stats_example:
  "totalSpins (stats n2s (serve n2s
      [(t1, True, spin_body 10 0), (t2, True, spin_body 10 0), (t3, True, spin_body 10 0),
       (t4, True, spin_body 10 100)] (Stored empty_state))) = 4
   \<and> reduce_sum bet (spins (readData (serve n2s
      [(t1, True, spin_body 10 0), (t2, True, spin_body 10 0), (t3, True, spin_body 10 0),
       (t4, True, spin_body 10 100)] (Stored empty_state)))) = Fin 40
   \<and> reduce_sum win (spins (readData (serve n2s
      [(t1, True, spin_body 10 0), (t2, True, spin_body 10 0), (t3, True, spin_body 10 0),
       (t4, True, spin_body 10 100)] (Stored empty_state)))) = Fin 100
   \<and> totalWagered (stats n2s (serve n2s
      [(t1, True, spin_body 10 0), (t2, True, spin_body 10 0), (t3, True, spin_body 10 0),
       (t4, True, spin_body 10 100)] (Stored empty_state))) = ''40.00''
   \<and> totalWon (stats n2s (serve n2s
      [(t1, True, spin_body 10 0), (t2, True, spin_body 10 0), (t3, True, spin_body 10 0),
       (t4, True, spin_body 10 100)] (Stored empty_state))) = ''100.00''
   \<and> houseEdge (stats n2s (serve n2s
      [(t1, True, spin_body 10 0), (t2, True, spin_body 10 0), (t3, True, spin_body 10 0),
       (t4, True, spin_body 10 100)] (Stored empty_state))) = JStr ''-150.00''"
proof -
  have s: "serve n2s
      [(t1, True, spin_body 10 0), (t2, True, spin_body 10 0), (t3, True, spin_body 10 0),
       (t4, True, spin_body 10 100)] (Stored empty_state)
    = Stored (empty_state\<lparr>spins :=
        [\<lparr>timestamp = t1, sessionId = [], bet = Fin 10, win = Fin 0, symbols = []\<rparr>,
         \<lparr>timestamp = t2, sessionId = [], bet = Fin 10, win = Fin 0, symbols = []\<rparr>,
         \<lparr>timestamp = t3, sessionId = [], bet = Fin 10, win = Fin 0, symbols = []\<rparr>,
         \<lparr>timestamp = t4, sessionId = [], bet = Fin 10, win = Fin 100, symbols = []\<rparr>]\<rparr>)"
    by (simp add: track_spin keep_last_def)
  have f40: "toFixed n2s (Fin 40) 2 = ''40.00''"
    by (simp add: toFixed_def Let_def decimal_numeral decimal_small digit_char_def)
  have f100: "toFixed n2s (Fin 100) 2 = ''100.00''"
    by (simp add: toFixed_def Let_def decimal_numeral decimal_small digit_char_def)
  have f150: "toFixed n2s (Fin (- 150)) 2 = ''-150.00''"
    by (simp add: toFixed_def Let_def decimal_numeral decimal_small digit_char_def)
  show ?thesis
    unfolding s
    by (simp add: stats_def Let_def reduce_sum_def jsub_def f40 f100 f150)
qed

text \<open>
  Claim C8. When the bets sum to zero the house edge is the number 0; when there is no
  spin the average bet and the free-spins trigger rate are the number 0. (The other
  branch of each is a string made by \<open>toFixed\<close>.)
\<close>

theorem zero_denominators:
  "(reduce_sum bet (spins (readData disk)) = Fin 0 \<longrightarrow> houseEdge (stats n2s disk) = JNum (Fin 0))
   \<and> (totalSpins (stats n2s disk) = 0 \<longrightarrow>
        avgBet (stats n2s disk) = JNum (Fin 0) \<and> fsTriggerRate (stats n2s disk) = JNum (Fin 0))"
  by (simp add: stats_def Let_def)

theorem zero_denominators_witness:
  "reduce_sum bet (spins (readData (Stored (empty_state\<lparr>spins :=
        [\<lparr>timestamp = ''2026-01-01T00:00:00.000Z'', sessionId = ''s1'', bet = Fin 0, win = Fin 0, symbols = []\<rparr>]\<rparr>)))) = Fin 0
  \<and> houseEdge (stats (\<lambda>r. []) (Stored (empty_state\<lparr>spins :=
        [\<lparr>timestamp = ''2026-01-01T00:00:00.000Z'', sessionId = ''s1'', bet = Fin 0, win = Fin 0, symbols = []\<rparr>]\<rparr>))) = JNum (Fin 0)
  \<and> totalSpins (stats (\<lambda>r. []) NoFile) = 0
  \<and> avgBet (stats (\<lambda>r. []) NoFile) = JNum (Fin 0)
  \<and> fsTriggerRate (stats (\<lambda>r. []) NoFile) = JNum (Fin 0)"
proof -
  have t: "totalSpins (stats (\<lambda>r. []) NoFile) = 0"
    by (simp add: stats_def Let_def)
  have r: "reduce_sum bet (spins (readData (Stored (empty_state\<lparr>spins :=
        [\<lparr>timestamp = ''2026-01-01T00:00:00.000Z'', sessionId = ''s1'', bet = Fin 0, win = Fin 0, symbols = []\<rparr>]\<rparr>)))) = Fin 0"
    by (simp add: reduce_sum_def)
  from t r zero_denominators [where disk = NoFile and n2s = "\<lambda>r. []"]
    zero_denominators [where n2s = "\<lambda>r. []" and disk = "Stored (empty_state\<lparr>spins :=
        [\<lparr>timestamp = ''2026-01-01T00:00:00.000Z'', sessionId = ''s1'', bet = Fin 0, win = Fin 0, symbols = []\<rparr>]\<rparr>)"]
  show ?thesis by simp
qed

lemma first_seen_snoc:
  "first_seen (xs @ [x]) = (if x \<in> set xs then first_seen xs else first_seen xs @ [x])"
  by (simp add: first_seen_def)

lemma set_first_seen [simp]: "set (first_seen xs) = set xs"
  by (simp add: first_seen_def)

lemma distinct_first_seen [simp]: "distinct (first_seen xs)"
  by (simp add: first_seen_def)

lemma map_of_tabulate:
  "map_of (map (\<lambda>k. (k, f k)) ks) x = (if x \<in> set ks then Some (f x) else None)"
  by (induction ks) auto

lemma assign_fresh:
  "x \<notin> set ks \<Longrightarrow> assign (map (\<lambda>k. (k, f k)) ks) x v = map (\<lambda>k. (k, f k)) ks @ [(x, v)]"
  by (induction ks) auto

lemma assign_present:
  "x \<in> set ks \<Longrightarrow> distinct ks \<Longrightarrow>
     assign (map (\<lambda>k. (k, f k)) ks) x v = map (\<lambda>k. (k, if k = x then v else f k)) ks"
  by (induction ks) auto

lemma count_symbol_tabulate:
  assumes "x \<notin> set Object_prototype_names"
  shows "count_symbol (map (\<lambda>k. (k, Count (count_list syms k))) (first_seen syms)) x
           = map (\<lambda>k. (k, Count (count_list (syms @ [x]) k))) (first_seen (syms @ [x]))"
proof (cases "x \<in> set syms")
  case True
  then show ?thesis
    by (simp add: count_symbol_def map_of_tabulate assign_present first_seen_snoc)
next
  case False
  have "x \<noteq> ''__proto__''" using assms by (auto simp: Object_prototype_names_def)
  with False assms show ?thesis
    by (auto simp: count_symbol_def map_of_tabulate assign_fresh first_seen_snoc)
qed

lemma symbol_counts:
  "set syms \<inter> set Object_prototype_names = {} \<Longrightarrow>
     foldl count_symbol [] syms = map (\<lambda>k. (k, Count (count_list syms k))) (first_seen syms)"
proof (induction syms rule: rev_induct)
  case Nil
  then show ?case by (simp add: first_seen_def)
next
  case (snoc x xs)
  then have "x \<notin> set Object_prototype_names" and "set xs \<inter> set Object_prototype_names = {}"
    by auto
  with snoc.IH show ?case by (simp add: count_symbol_tabulate)
qed

lemma foldl_symbols:
  "foldl (\<lambda>counts spin. foldl count_symbol counts (symbols spin)) c ss
     = foldl count_symbol c (concat (map symbols ss))"
  by (induction ss arbitrary: c) simp_all

lemma insort_key_map:
  "insort_key f (h x) (map h xs) = map h (insort_key (\<lambda>a. f (h a)) x xs)"
  by (induction xs) simp_all

lemma sort_key_map: "sort_key f (map h xs) = map h (sort_key (\<lambda>a. f (h a)) xs)"
  by (induction xs) (simp_all add: insort_key_map)

lemma entries_tabulate:
  "Object_entries (map (\<lambda>k. (k, g k)) (first_seen syms))
     = map (\<lambda>k. (k, g k)) (own_key_order syms)"
  by (simp add: Object_entries_def own_key_order_def sort_key_map filter_map comp_def)

lemma top_symbols_closed:
  assumes "set (all_symbols (readData disk)) \<inter> set Object_prototype_names = {}"
  shows "topSymbols (stats n2s disk) =
     Some (take 10 (map (\<lambda>k. (k, Count (count_list (all_symbols (readData disk)) k)))
       (sort_key (\<lambda>k. - int (count_list (all_symbols (readData disk)) k))
          (own_key_order (all_symbols (readData disk))))))"
  using symbol_counts [OF assms]
  by (simp add: stats_def Let_def foldl_symbols all_symbols_def [symmetric] entries_tabulate
      sort_by_count_def list_all_iff sort_key_map comp_def slice_prefix_numeral take_map)

lemma set_own_key_order [simp]: "set (own_key_order syms) = set syms"
  by (auto simp: own_key_order_def)

lemma distinct_own_key_order [simp]: "distinct (own_key_order syms)"
  by (auto simp: own_key_order_def)

text \<open>
  Claim C6, as amended. For a store none of whose symbols names a member of
  \<open>Object.prototype\<close>, \<open>topSymbols\<close> is the first ten entries of a ranking of the
  distinct symbols, each paired with the number of its occurrences in all spins; the
  ranking is in descending order of count, and symbols of equal count stand in the
  order in which the counting object lists its properties: symbols that are array
  indices first, in ascending numeric order, then the others in the order of their
  first occurrence.
\<close>

theorem top_symbols_ranking:
  assumes "set (all_symbols (readData disk)) \<inter> set Object_prototype_names = {}"
  shows "\<exists>ranking.
      topSymbols (stats n2s disk)
        = Some (take 10
            (map (\<lambda>k. (k, Count (count_list (all_symbols (readData disk)) k))) ranking))
      \<and> length (take 10 ranking) \<le> 10
      \<and> set ranking = set (all_symbols (readData disk)) \<and> distinct ranking
      \<and> sorted_wrt (\<lambda>k k'. count_list (all_symbols (readData disk)) k'
                               \<le> count_list (all_symbols (readData disk)) k) ranking
      \<and> (\<forall>n. filter (\<lambda>k. count_list (all_symbols (readData disk)) k = n) ranking
              = filter (\<lambda>k. count_list (all_symbols (readData disk)) k = n)
                  (own_key_order (all_symbols (readData disk))))"
proof -
  let ?syms = "all_symbols (readData disk)"
  let ?f = "\<lambda>k. - int (count_list ?syms k)"
  let ?r = "sort_key ?f (own_key_order ?syms)"
  have "sorted (map ?f ?r)" by (rule sorted_sort_key)
  then have sorted: "sorted_wrt (\<lambda>k k'. count_list ?syms k' \<le> count_list ?syms k) ?r"
    by (simp add: sorted_map)
  have ties: "filter (\<lambda>k. count_list ?syms k = n) ?r
              = filter (\<lambda>k. count_list ?syms k = n) (own_key_order ?syms)" for n
    using sort_key_stable [of ?f "- int n" "own_key_order ?syms"] by simp
  show ?thesis
    using top_symbols_closed [OF assms, of n2s] sorted ties
    by (intro exI [of _ ?r]) simp
qed

lemmas stats_eval =
  stats_def Let_def count_symbol_def Object_prototype_names_def Object_entries_def
  sort_by_count_def slice_prefix_numeral is_array_index_def is_digit_def digits_value_def
  digit_value_def

text \<open>
  The claim as stated, with ties broken by first occurrence, fails for a spin whose
  symbols are \<open>cherry\<close> and \<open>7\<close>: both occur once, \<open>cherry\<close> first, and the
  statistics list \<open>7\<close> first.
\<close>

theorem top_symbols_counterexample:
  "topSymbols (stats (\<lambda>r. [])
      (snd (track (\<lambda>r. []) ''2026-01-01T00:00:00.000Z'' True
         (JObj [(''eventType'', JStr ''spin''),
                (''data'', JObj [(''bet'', JNum (Fin 1)), (''win'', JNum (Fin 0)),
                                 (''symbols'', JArr [JStr ''cherry'', JStr ''7''])])])
         (Stored empty_state))))
     = Some [(''7'', Count 1), (''cherry'', Count 1)]
   \<and> ranking_by_first_seen (all_symbols (readData
      (snd (track (\<lambda>r. []) ''2026-01-01T00:00:00.000Z'' True
         (JObj [(''eventType'', JStr ''spin''),
                (''data'', JObj [(''bet'', JNum (Fin 1)), (''win'', JNum (Fin 0)),
                                 (''symbols'', JArr [JStr ''cherry'', JStr ''7''])])])
         (Stored empty_state)))))
     = [(''cherry'', Count 1), (''7'', Count 1)]"
proof -
  have t: "snd (track (\<lambda>r. []) ''2026-01-01T00:00:00.000Z'' True
         (JObj [(''eventType'', JStr ''spin''),
                (''data'', JObj [(''bet'', JNum (Fin 1)), (''win'', JNum (Fin 0)),
                                 (''symbols'', JArr [JStr ''cherry'', JStr ''7''])])])
         (Stored empty_state))
     = Stored (empty_state\<lparr>spins :=
         [\<lparr>timestamp = ''2026-01-01T00:00:00.000Z'', sessionId = [], bet = Fin 1, win = Fin 0,
           symbols = [''cherry'', ''7'']\<rparr>]\<rparr>)"
    unfolding track_def Let_def track_switch_def push_trim
    by (simp add: validateKeys_Fields EVENT_SCHEMAS_def validateNumber_cases writeData_def
        sanitize_def slice_prefix_numeral html_special_def control_char_def String_def)
  show ?thesis
    unfolding t
    by (simp add: stats_eval ranking_by_first_seen_def all_symbols_def first_seen_def)
qed

theorem top_symbols_ranking_witness:
  "set (all_symbols (readData (Stored (empty_state\<lparr>spins :=
         [\<lparr>timestamp = ''2026-01-01T00:00:00.000Z'', sessionId = ''s1'', bet = Fin 1,
           win = Fin 0, symbols = [''b'', ''a'', ''b'', ''10'', ''9'']\<rparr>]\<rparr>))))
      \<inter> set Object_prototype_names = {}
   \<and> topSymbols (stats (\<lambda>r. []) (Stored (empty_state\<lparr>spins :=
         [\<lparr>timestamp = ''2026-01-01T00:00:00.000Z'', sessionId = ''s1'', bet = Fin 1,
           win = Fin 0, symbols = [''b'', ''a'', ''b'', ''10'', ''9'']\<rparr>]\<rparr>)))
       = Some [(''b'', Count 2), (''9'', Count 1), (''10'', Count 1), (''a'', Count 1)]
   \<and> (\<exists>ranking.
        topSymbols (stats (\<lambda>r. []) (Stored (empty_state\<lparr>spins :=
         [\<lparr>timestamp = ''2026-01-01T00:00:00.000Z'', sessionId = ''s1'', bet = Fin 1,
           win = Fin 0, symbols = [''b'', ''a'', ''b'', ''10'', ''9'']\<rparr>]\<rparr>)))
          = Some (take 10 (map (\<lambda>k. (k, Count (count_list [''b'', ''a'', ''b'', ''10'', ''9''] k)))
                     ranking))
        \<and> set ranking = set [''b'', ''a'', ''b'', ''10'', ''9''] \<and> distinct ranking)"
proof -
  have h: "set (all_symbols (readData (Stored (empty_state\<lparr>spins :=
         [\<lparr>timestamp = ''2026-01-01T00:00:00.000Z'', sessionId = ''s1'', bet = Fin 1,
           win = Fin 0, symbols = [''b'', ''a'', ''b'', ''10'', ''9'']\<rparr>]\<rparr>))))
      \<inter> set Object_prototype_names = {}"
    by (simp add: all_symbols_def Object_prototype_names_def)
  have a: "all_symbols (readData (Stored (empty_state\<lparr>spins :=
         [\<lparr>timestamp = ''2026-01-01T00:00:00.000Z'', sessionId = ''s1'', bet = Fin 1,
           win = Fin 0, symbols = [''b'', ''a'', ''b'', ''10'', ''9'']\<rparr>]\<rparr>)))
       = [''b'', ''a'', ''b'', ''10'', ''9'']"
    by (simp add: all_symbols_def)
  have v: "topSymbols (stats (\<lambda>r. []) (Stored (empty_state\<lparr>spins :=
         [\<lparr>timestamp = ''2026-01-01T00:00:00.000Z'', sessionId = ''s1'', bet = Fin 1,
           win = Fin 0, symbols = [''b'', ''a'', ''b'', ''10'', ''9'']\<rparr>]\<rparr>)))
       = Some [(''b'', Count 2), (''9'', Count 1), (''10'', Count 1), (''a'', Count 1)]"
    by (simp add: stats_eval)
  from top_symbols_ranking [OF h, of "\<lambda>r. []"] h v show ?thesis
    unfolding a by blast
qed

text \<open>
  Symbols that name a member of \<open>Object.prototype\<close> are outside the theorem above:
  \<open>__proto__\<close> is never counted, and any other such name turns its count into a string.
\<close>

lemma inherited_names_miscounted:
  "topSymbols (stats n2s (Stored (empty_state\<lparr>spins :=
      [\<lparr>timestamp = t, sessionId = s, bet = Fin 1, win = Fin 0,
        symbols = [''__proto__'', ''__proto__'']\<rparr>]\<rparr>))) = Some []"
  "topSymbols (stats n2s (Stored (empty_state\<lparr>spins :=
      [\<lparr>timestamp = t, sessionId = s, bet = Fin 1, win = Fin 0,
        symbols = [''constructor'', ''cherry'']\<rparr>]\<rparr>))) = None"
  by (simp_all add: stats_eval)

section \<open>Properties of the queries\<close>











end
